theory Spec2Isabelle
  imports Complex_Main "HOL-Library.Word"
begin

unbundle bit_operations_syntax

section \<open>Data model\<close>

text \<open>
  The detector of \<^verbatim>\<open>RoombaBlobDetector.cpp\<close>. Images are OpenCV matrices: a row
  count, a column count and the elements in row-major order. An 8-bit channel is an
  \<open>8 word\<close>. The C++ \<^verbatim>\<open>float\<close> and \<^verbatim>\<open>double\<close> values (moments, eigenvectors,
  rectangle geometry, angles) are modelled by real numbers: rounding, infinities, NaN and
  the sign of zero are not represented.
\<close>

type_synonym uchar = "8 word"
type_synonym Vec3b = "uchar \<times> uchar \<times> uchar"
type_synonym Vec3d = "real \<times> real \<times> real"
type_synonym Point = "int \<times> int"
type_synonym Point2f = "real \<times> real"
type_synonym Vector2d = "real \<times> real"
type_synonym Scalar = "int \<times> int \<times> int"

record 'a Mat =
  rows :: nat
  cols :: nat
  data :: "'a list"

record Size2f =
  width :: real
  height :: real

record RotatedRect =
  center :: Point2f
  rect_size :: Size2f
  angle :: real

text \<open>\<^verbatim>\<open>struct RoombaEstimatorSettings\<close> of \<^verbatim>\<open>RoombaEstimatorSettings.hpp\<close>.\<close>

record RoombaEstimatorSettings =
  pixels_per_meter :: real
  roomba_plate_width :: real
  roomba_height :: real
  ght_levels :: int
  ght_dp :: int
  ght_votes_threshold :: int
  camera_canny_threshold :: int
  template_canny_threshold :: int
  hsv_slice_h_green_min :: int
  hsv_slice_h_green_max :: int
  hsv_slice_h_red1_min :: int
  hsv_slice_h_red1_max :: int
  hsv_slice_h_red2_min :: int
  hsv_slice_h_red2_max :: int
  hsv_slice_s_min :: int
  hsv_slice_s_max :: int
  hsv_slice_v_min :: int
  hsv_slice_v_max :: int
  morphology_size :: int
  morphology_iterations :: int
  bottom_camera_aov :: real
  debug_hsv_slice :: bool
  debug_contours :: bool
  debug_rects :: bool

datatype ros_exception = Exception string

text \<open>
  The operations of OpenCV and Eigen that the detector calls and whose results no
  definition below fixes are taken as parameters:
  \<^item> \<open>cuda_cvtColor_RGB2HSV\<close> and \<open>cvtColor_RGB2HSV\<close>: the colour conversion of one
    pixel, on the GPU (\<^verbatim>\<open>cv::cuda::cvtColor\<close>) and on the CPU (\<^verbatim>\<open>cv::cvtColor\<close>);
  \<^item> \<open>morphology_open\<close>: the filter of \<^verbatim>\<open>createMorphologyFilter(MORPH_OPEN, ...)\<close>
    for a kernel size and an iteration count;
  \<^item> \<open>findContours\<close>: \<^verbatim>\<open>cv::findContours\<close> with \<^verbatim>\<open>CV_RETR_EXTERNAL\<close> and
    \<^verbatim>\<open>CV_CHAIN_APPROX_SIMPLE\<close>;
  \<^item> \<open>normalized_central_moments\<close>: the fields \<^verbatim>\<open>nu20\<close>, \<^verbatim>\<open>nu11\<close>, \<^verbatim>\<open>nu02\<close> of
    \<^verbatim>\<open>cv::moments\<close> of a contour;
  \<^item> \<open>eigenvectors\<close>: columns 0 and 1 of
    \<^verbatim>\<open>Eigen::SelfAdjointEigenSolver<Matrix2d>::eigenvectors()\<close> for the symmetric
    matrix with entries \<open>(nu20, nu11, nu02)\<close>;
  \<^item> \<open>footprint\<close>: the pixel coordinates \<open>(x, y)\<close> that a rotated window covers,
    before clipping to the image.
\<close>

record external_ops =
  cuda_cvtColor_RGB2HSV :: "Vec3b \<Rightarrow> Vec3b"
  cvtColor_RGB2HSV :: "Vec3b \<Rightarrow> Vec3b"
  morphology_open :: "int \<Rightarrow> int \<Rightarrow> uchar Mat \<Rightarrow> uchar Mat"
  findContours :: "uchar Mat \<Rightarrow> Point list list"
  normalized_central_moments :: "Point list \<Rightarrow> real \<times> real \<times> real"
  eigenvectors :: "real \<times> real \<times> real \<Rightarrow> Vector2d \<times> Vector2d"
  footprint :: "RotatedRect \<Rightarrow> Point list"

section \<open>Matrix helpers\<close>

text \<open>
  \<^verbatim>\<open>Mat::create(rows, cols, type)\<close> keeps the buffer when the matrix already has
  that shape and allocates a new one otherwise; the new buffer's contents are not
  initialised, and are given here by the argument \<open>uninit\<close>.
\<close>

definition create :: "nat \<Rightarrow> nat \<Rightarrow> 'a list \<Rightarrow> 'a Mat \<Rightarrow> 'a Mat" where
  "create r c uninit m =
     (if rows m = r \<and> cols m = c then m else \<lparr>rows = r, cols = c, data = uninit\<rparr>)"

definition setTo :: "'a \<Rightarrow> 'a Mat \<Rightarrow> 'a Mat" where
  "setTo v m = m\<lparr>data := replicate (rows m * cols m) v\<rparr>"

definition zeros :: "nat \<Rightarrow> nat \<Rightarrow> uchar Mat" where
  "zeros r c = \<lparr>rows = r, cols = c, data = replicate (r * c) 0\<rparr>"

definition bitwise_or :: "uchar Mat \<Rightarrow> uchar Mat \<Rightarrow> uchar Mat" where
  "bitwise_or a b = a\<lparr>data := map (\<lambda>(x, y). x OR y) (zip (data a) (data b))\<rparr>"

definition mat_at :: "'a Mat \<Rightarrow> nat \<Rightarrow> nat \<Rightarrow> 'a" where
  "mat_at m r c = data m ! (r * cols m + c)"

definition mat_set :: "'a Mat \<Rightarrow> nat \<Rightarrow> nat \<Rightarrow> 'a \<Rightarrow> 'a Mat" where
  "mat_set m r c v = m\<lparr>data := (data m)[r * cols m + c := v]\<rparr>"

definition cvtColor_image :: "(Vec3b \<Rightarrow> Vec3b) \<Rightarrow> Vec3b Mat \<Rightarrow> Vec3b Mat" where
  "cvtColor_image f img = img\<lparr>data := map f (data img)\<rparr>"

section \<open>Colour ranges\<close>

text \<open>
  The test of one pixel against a lower and an upper \<^verbatim>\<open>cv::Scalar\<close>: every channel
  lies between its two bounds, both included.
\<close>

definition in_bounds :: "Vec3b \<Rightarrow> Scalar \<Rightarrow> Scalar \<Rightarrow> bool" where
  "in_bounds px lower upper =
     (case px of (c0, c1, c2) \<Rightarrow>
      case lower of (l0, l1, l2) \<Rightarrow>
      case upper of (u0, u1, u2) \<Rightarrow>
        l0 \<le> uint c0 \<and> uint c0 \<le> u0 \<and>
        l1 \<le> uint c1 \<and> uint c1 \<le> u1 \<and>
        l2 \<le> uint c2 \<and> uint c2 \<le> u2)"

text \<open>
  Modelled from the spec: \<^verbatim>\<open>cv_utils::inRange\<close> (declared in
  \<^verbatim>\<open>iarc7_vision/cv_utils.hpp\<close>, whose implementation is not among the sources). The
  specification describes it as the per-pixel membership test, "hue within range,
  saturation and value within the shared bounds", each an inclusive range test. The
  result mask holds 255 where the test succeeds and 0 elsewhere; the previous contents of
  the output matrix are overwritten.
\<close>

definition cv_utils_inRange :: "Vec3b Mat \<Rightarrow> Scalar \<Rightarrow> Scalar \<Rightarrow> uchar Mat" where
  "cv_utils_inRange src lower upper =
     \<lparr>rows = rows src, cols = cols src,
      data = map (\<lambda>px. if in_bounds px lower upper then 255 else 0) (data src)\<rparr>"

text \<open>
  \<^verbatim>\<open>cv::inRange\<close> of OpenCV, as documented: the destination is 255 where every
  channel of the source lies within the inclusive bounds, and 0 elsewhere.
\<close>

definition cv_inRange :: "Vec3b Mat \<Rightarrow> Scalar \<Rightarrow> Scalar \<Rightarrow> uchar Mat" where
  "cv_inRange src lower upper =
     \<lparr>rows = rows src, cols = cols src,
      data = map (\<lambda>px. if in_bounds px lower upper then 255 else 0) (data src)\<rparr>"

section \<open>thresholdFrame\<close>

text \<open>
  Lines 38 to 77: the conversion, the zeroed destination and the three slices, each
  combined into the destination with a bitwise or. \<open>dst\<close> is the caller's matrix on
  entry. The unused \<^verbatim>\<open>hsv_channels\<close> split is left out.
\<close>

definition thresholdFrame_slices ::
  "RoombaEstimatorSettings \<Rightarrow> external_ops \<Rightarrow> uchar list \<Rightarrow> Vec3b Mat \<Rightarrow> uchar Mat \<Rightarrow> uchar Mat"
where
  "thresholdFrame_slices settings ops uninit img dst =
     (let hsv_image = cvtColor_image (cuda_cvtColor_RGB2HSV ops) img;
          dst = create (rows img) (cols img) uninit dst;
          dst = setTo 0 dst;
          range_mask = cv_utils_inRange hsv_image
             (hsv_slice_h_green_min settings, hsv_slice_s_min settings, hsv_slice_v_min settings)
             (hsv_slice_h_green_max settings, hsv_slice_s_max settings, hsv_slice_v_max settings);
          dst = bitwise_or dst range_mask;
          range_mask = cv_utils_inRange hsv_image
             (hsv_slice_h_red1_min settings, hsv_slice_s_min settings, hsv_slice_v_min settings)
             (hsv_slice_h_red1_max settings, hsv_slice_s_max settings, hsv_slice_v_max settings);
          dst = bitwise_or dst range_mask;
          range_mask = cv_utils_inRange hsv_image
             (hsv_slice_h_red2_min settings, hsv_slice_s_min settings, hsv_slice_v_min settings)
             (hsv_slice_h_red2_max settings, hsv_slice_s_max settings, hsv_slice_v_max settings);
          dst = bitwise_or dst range_mask
      in dst)"

text \<open>
  Lines 79 to 90: the morphological opening of the mask. The final
  \<^verbatim>\<open>ROS_ASSERT(dst.channels() == 1)\<close> holds by the type of the mask.
\<close>

definition thresholdFrame ::
  "RoombaEstimatorSettings \<Rightarrow> external_ops \<Rightarrow> uchar list \<Rightarrow> Vec3b Mat \<Rightarrow> uchar Mat \<Rightarrow> uchar Mat"
where
  "thresholdFrame settings ops uninit img dst =
     morphology_open ops (morphology_size settings) (morphology_iterations settings)
       (thresholdFrame_slices settings ops uninit img dst)"

section \<open>boundMask\<close>

text \<open>
  The zeroth moment \<^verbatim>\<open>m00\<close> that \<^verbatim>\<open>cv::moments\<close> of OpenCV gives for a contour
  of integer points: the sum of \<open>x\<^sub>i\<^sub>-\<^sub>1 * y\<^sub>i - x\<^sub>i * y\<^sub>i\<^sub>-\<^sub>1\<close> over the closed polygon
  (Green's formula), starting from the last point, halved and made positive. For an empty
  contour \<^verbatim>\<open>cv::moments\<close> returns the moments it initialised to zero.
\<close>

fun contour_a00 :: "Point \<Rightarrow> real \<Rightarrow> Point list \<Rightarrow> real" where
  "contour_a00 prev a00 [] = a00"
| "contour_a00 prev a00 (p # ps) =
     contour_a00 p (a00 + (real_of_int (fst prev) * real_of_int (snd p)
                           - real_of_int (fst p) * real_of_int (snd prev))) ps"

definition moments_m00 :: "Point list \<Rightarrow> real" where
  "moments_m00 contour =
     (if contour = [] then 0 else \<bar>contour_a00 (last contour) 0 contour\<bar> / 2)"

text \<open>
  \<^verbatim>\<open>std::atan2(y, x)\<close> on real numbers, with \<open>atan2 0 0 = 0\<close> as for positive zeros.
\<close>

definition atan2 :: "real \<Rightarrow> real \<Rightarrow> real" where
  "atan2 y x =
     (if 0 < x then arctan (y / x)
      else if x < 0 then (if 0 \<le> y then arctan (y / x) + pi else arctan (y / x) - pi)
      else if 0 < y then pi / 2
      else if y < 0 then - (pi / 2)
      else 0)"

definition dot :: "Vector2d \<Rightarrow> Point \<Rightarrow> real" where
  "dot v p = fst v * real_of_int (fst p) + snd v * real_of_int (snd p)"

definition scale_vec :: "real \<Rightarrow> real \<times> real \<Rightarrow> real \<times> real" where
  "scale_vec k v = (k * fst v, k * snd v)"

definition add_vec :: "real \<times> real \<Rightarrow> real \<times> real \<Rightarrow> real \<times> real" where
  "add_vec u v = (fst u + fst v, snd u + snd v)"

text \<open>
  The loop over the points of a contour, lines 141 to 171. The state is \<open>None\<close> while
  \<^verbatim>\<open>have_point\<close> is false (the four bounds are then uninitialised and never read), and
  \<open>Some (rect_max_x, rect_min_x, rect_max_y, rect_min_y)\<close> afterwards.
\<close>

fun extend_bounds ::
  "Vector2d \<Rightarrow> Vector2d \<Rightarrow> (real \<times> real \<times> real \<times> real) option \<Rightarrow> Point
   \<Rightarrow> (real \<times> real \<times> real \<times> real) option"
where
  "extend_bounds evector0 evector1 None point =
     (let dx = dot evector0 point; dy = dot evector1 point in Some (dx, dx, dy, dy))"
| "extend_bounds evector0 evector1 (Some (rect_max_x, rect_min_x, rect_max_y, rect_min_y)) point =
     (let dx = dot evector0 point; dy = dot evector1 point in
      Some (if dx > rect_max_x then dx else rect_max_x,
            if dx < rect_min_x then dx else rect_min_x,
            if dy > rect_max_y then dy else rect_max_y,
            if dy < rect_min_y then dy else rect_min_y))"

text \<open>Lines 141 to 183: the bounds, the exception for no point, and the rectangle.\<close>

definition fitRect :: "Vector2d \<Rightarrow> Vector2d \<Rightarrow> Point list \<Rightarrow> ros_exception + RotatedRect" where
  "fitRect evector0 evector1 contour =
     (case foldl (extend_bounds evector0 evector1) None contour of
        None \<Rightarrow> Inl (Exception ''Empty contour'')
      | Some (rect_max_x, rect_min_x, rect_max_y, rect_min_y) \<Rightarrow>
          Inr \<lparr>center = add_vec (scale_vec ((rect_max_x + rect_min_x) / 2) evector0)
                                (scale_vec ((rect_max_y + rect_min_y) / 2) evector1),
               rect_size = \<lparr>width = rect_max_x - rect_min_x, height = rect_max_y - rect_min_y\<rparr>,
               angle = - atan2 (fst evector1) (snd evector1) * 180 / pi\<rparr>)"

text \<open>
  The loop over the contours, lines 126 to 190. The result is the outcome (an exception
  or normal completion) and the contents of the caller's vector at that moment.
\<close>

fun boundMask_loop ::
  "external_ops \<Rightarrow> Point list list \<Rightarrow> RotatedRect list
   \<Rightarrow> (ros_exception + unit) \<times> RotatedRect list"
where
  "boundMask_loop ops [] boundRect = (Inr (), boundRect)"
| "boundMask_loop ops (contour # contours) boundRect =
     (if moments_m00 contour < 2000 \<or> moments_m00 contour > 15000
      then boundMask_loop ops contours boundRect
      else
        case eigenvectors ops (normalized_central_moments ops contour) of
          (evector0, evector1) \<Rightarrow>
            (case fitRect evector0 evector1 contour of
               Inl e \<Rightarrow> (Inl e, boundRect)
             | Inr rect \<Rightarrow>
                 if height (rect_size rect) > width (rect_size rect) * 4
                    \<or> width (rect_size rect) > height (rect_size rect) * 4
                 then boundMask_loop ops contours boundRect
                 else boundMask_loop ops contours (boundRect @ [rect])))"

text \<open>
  \<^verbatim>\<open>boundMask\<close>: the contours of the mask, the vector cleared by
  \<^verbatim>\<open>resize(0)\<close>, then the loop. Publishing the debug image of the contours sends a
  message and changes no variable of the computation; it is left out.
\<close>

definition boundMask ::
  "external_ops \<Rightarrow> uchar Mat \<Rightarrow> RotatedRect list \<Rightarrow> (ros_exception + unit) \<times> RotatedRect list"
where
  "boundMask ops mask_img boundRect =
     boundMask_loop ops (findContours ops mask_img) (take 0 boundRect)"

section \<open>checkCorners\<close>

text \<open>
  Modelled from the spec: the clipping inside \<^verbatim>\<open>cv_utils::sumPatch\<close> (declared in
  \<^verbatim>\<open>iarc7_vision/cv_utils.hpp\<close>, whose implementation is not among the sources),
  "clipping the window to valid frame bounds first": the pixels \<open>(x, y)\<close> of the
  footprint with \<open>0 \<le> x < cols\<close> and \<open>0 \<le> y < rows\<close>.
\<close>

definition clip_footprint :: "Vec3b Mat \<Rightarrow> Point list \<Rightarrow> Point list" where
  "clip_footprint img pts =
     filter (\<lambda>(x, y). 0 \<le> x \<and> x < int (cols img) \<and> 0 \<le> y \<and> y < int (rows img)) pts"

text \<open>
  Modelled from the spec: \<^verbatim>\<open>cv_utils::sumPatch\<close> (declared in
  \<^verbatim>\<open>iarc7_vision/cv_utils.hpp\<close>, whose implementation is not among the sources). The
  specification says: "average the raw color over the window's pixel footprint (clipping
  the window to valid frame bounds first ...)". The result is the mean of each channel
  over the pixels of the clipped footprint. The call in \<^verbatim>\<open>checkCorners\<close> takes a
  \<^verbatim>\<open>cv::Vec3d\<close> in every case, and the specification names no colour for an empty
  clipped footprint; the sum over no pixel, zero, is returned then.
\<close>

definition sumPatch :: "external_ops \<Rightarrow> Vec3b Mat \<Rightarrow> RotatedRect \<Rightarrow> Vec3d" where
  "sumPatch ops img window =
     (let pts = clip_footprint img (footprint ops window);
          pxs = map (\<lambda>(x, y). mat_at img (nat y) (nat x)) pts;
          n = real (length pxs)
      in if pxs = [] then (0, 0, 0)
         else (real_of_int (sum_list (map (\<lambda>(r, g, b). uint r) pxs)) / n,
               real_of_int (sum_list (map (\<lambda>(r, g, b). uint g) pxs)) / n,
               real_of_int (sum_list (map (\<lambda>(r, g, b). uint b) pxs)) / n))"

text \<open>
  The conversion of a \<^verbatim>\<open>double\<close> to \<^verbatim>\<open>uchar\<close> in the assignment of a
  \<^verbatim>\<open>Vec3d\<close> to a \<^verbatim>\<open>Vec3b\<close>: OpenCV's \<^verbatim>\<open>saturate_cast\<close>, rounding to the nearest
  integer (ties to even) and clamping to 0..255.
\<close>

definition cvRound :: "real \<Rightarrow> int" where
  "cvRound r =
     (let f = \<lfloor>r\<rfloor>; d = r - real_of_int f
      in if d < 1 / 2 then f else if d > 1 / 2 then f + 1 else if even f then f else f + 1)"

definition saturate_cast_uchar :: "real \<Rightarrow> uchar" where
  "saturate_cast_uchar r = word_of_int (max 0 (min 255 (cvRound r)))"

definition Vec3b_of_Vec3d :: "Vec3d \<Rightarrow> Vec3b" where
  "Vec3b_of_Vec3d v =
     (case v of (a, b, c) \<Rightarrow> (saturate_cast_uchar a, saturate_cast_uchar b, saturate_cast_uchar c))"

text \<open>
  Lines 219 to 257: the 1x1 matrix of the patch colour, converted, and tested against the
  three slices; the value of \<^verbatim>\<open>patch_good_mat.at<uchar>(0, 0)\<close> at the end.
\<close>

definition patch_good :: "RoombaEstimatorSettings \<Rightarrow> external_ops \<Rightarrow> Vec3d \<Rightarrow> uchar" where
  "patch_good settings ops patch_sum =
     (let patch_sum_mat = \<lparr>rows = 1, cols = 1, data = [Vec3b_of_Vec3d patch_sum]\<rparr>;
          patch_sum_mat = cvtColor_image (cvtColor_RGB2HSV ops) patch_sum_mat;
          patch_good_mat = mat_set (zeros 1 1) 0 0 0;
          range_mask = cv_inRange patch_sum_mat
             (hsv_slice_h_green_min settings, hsv_slice_s_min settings, hsv_slice_v_min settings)
             (hsv_slice_h_green_max settings, hsv_slice_s_max settings, hsv_slice_v_max settings);
          patch_good_mat = bitwise_or patch_good_mat range_mask;
          range_mask = cv_inRange patch_sum_mat
             (hsv_slice_h_red1_min settings, hsv_slice_s_min settings, hsv_slice_v_min settings)
             (hsv_slice_h_red1_max settings, hsv_slice_s_max settings, hsv_slice_v_max settings);
          patch_good_mat = bitwise_or patch_good_mat range_mask;
          range_mask = cv_inRange patch_sum_mat
             (hsv_slice_h_red2_min settings, hsv_slice_s_min settings, hsv_slice_v_min settings)
             (hsv_slice_h_red2_max settings, hsv_slice_s_max settings, hsv_slice_v_max settings);
          patch_good_mat = bitwise_or patch_good_mat range_mask
      in mat_at patch_good_mat 0 0)"

text \<open>
  Lines 199 to 210: \<^verbatim>\<open>scale\<close> (0.2), the sampling window of a rectangle and the two
  offsets along its axes.
\<close>

definition scale :: real where
  "scale = 2 / 10"

definition window_of :: "RotatedRect \<Rightarrow> RotatedRect" where
  "window_of rect =
     \<lparr>center = (0, 0),
      rect_size = \<lparr>width = width (rect_size rect) * scale,
                   height = height (rect_size rect) * scale\<rparr>,
      angle = angle rect\<rparr>"

definition rads_of :: "RotatedRect \<Rightarrow> real" where
  "rads_of rect = angle rect * pi / 180"

definition offset_x_of :: "RotatedRect \<Rightarrow> Point2f" where
  "offset_x_of rect =
     scale_vec (width (rect_size rect) * (1 - scale) / 2) (cos (rads_of rect), sin (rads_of rect))"

definition offset_y_of :: "RotatedRect \<Rightarrow> Point2f" where
  "offset_y_of rect =
     scale_vec (height (rect_size rect) * (1 - scale) / 2) (- sin (rads_of rect), cos (rads_of rect))"

text \<open>
  Line 216: the window moved to the corner with the indices \<open>(i, j)\<close>, at
  \<^verbatim>\<open>rect.center + i*offset_x + j*offset_y\<close>.
\<close>

definition corner_window :: "RotatedRect \<Rightarrow> int \<times> int \<Rightarrow> RotatedRect" where
  "corner_window rect ij =
     (window_of rect)
       \<lparr>center := add_vec (add_vec (center rect)
                                  (scale_vec (real_of_int (fst ij)) (offset_x_of rect)))
                         (scale_vec (real_of_int (snd ij)) (offset_y_of rect))\<rparr>"

text \<open>
  Lines 217 to 257 for the corner \<open>(i, j)\<close>: the value of
  \<^verbatim>\<open>patch_good_mat.at<uchar>(0, 0)\<close> that line 259 stores.
\<close>

definition corner_good ::
  "RoombaEstimatorSettings \<Rightarrow> external_ops \<Rightarrow> Vec3b Mat \<Rightarrow> RotatedRect \<Rightarrow> int \<times> int \<Rightarrow> uchar"
where
  "corner_good settings ops cpu_image rect ij =
     patch_good settings ops (sumPatch ops cpu_image (corner_window rect ij))"

text \<open>
  One pass of the body of the two nested loops (lines 216 to 260): the result for the
  corner is stored in the 2x2 matrix at \<open>((i + 1) / 2, (j + 1) / 2)\<close>.
\<close>

definition corner_step ::
  "RoombaEstimatorSettings \<Rightarrow> external_ops \<Rightarrow> Vec3b Mat \<Rightarrow> RotatedRect
   \<Rightarrow> uchar Mat \<Rightarrow> int \<times> int \<Rightarrow> uchar Mat"
where
  "corner_step settings ops cpu_image rect corners ij =
     mat_set corners (nat ((fst ij + 1) div 2)) (nat ((snd ij + 1) div 2))
       (corner_good settings ops cpu_image rect ij)"

text \<open>
  Lines 212 to 262: the 2x2 matrix \<^verbatim>\<open>corners\<close> of a rectangle. The loops
  \<^verbatim>\<open>for (i = -1; i != 3; i += 2)\<close> and the same for \<open>j\<close> visit the four pairs below in
  this order.
\<close>

definition rect_corners ::
  "RoombaEstimatorSettings \<Rightarrow> external_ops \<Rightarrow> Vec3b Mat \<Rightarrow> RotatedRect \<Rightarrow> uchar Mat"
where
  "rect_corners settings ops cpu_image rect =
     foldl (corner_step settings ops cpu_image rect) (zeros 2 2)
       [(-1, -1), (-1, 1), (1, -1), (1, 1)]"

text \<open>
  \<^verbatim>\<open>std::fmod\<close> on real numbers for a nonzero divisor: the quotient is truncated
  towards zero, so the result has the sign of the dividend.
\<close>

definition fmod :: "real \<Rightarrow> real \<Rightarrow> real" where
  "fmod x y = x - y * real_of_int (if x / y < 0 then \<lceil>x / y\<rceil> else \<lfloor>x / y\<rfloor>)"

text \<open>Lines 264 to 270: the test of the four corners and the change of the angle.\<close>

definition flip_angle :: "uchar Mat \<Rightarrow> RotatedRect \<Rightarrow> RotatedRect" where
  "flip_angle corners rect =
     (if mat_at corners 0 0 = 0 \<and> mat_at corners 0 1 = 0 \<and> mat_at corners 1 0 \<noteq> 0 \<and> mat_at corners 1 1 \<noteq> 0
      then rect\<lparr>angle := fmod (angle rect + 180) 360\<rparr>
      else rect)"

definition checkCorners ::
  "RoombaEstimatorSettings \<Rightarrow> external_ops \<Rightarrow> Vec3b Mat \<Rightarrow> RotatedRect list \<Rightarrow> RotatedRect list"
where
  "checkCorners settings ops img rects =
     map (\<lambda>rect. flip_angle (rect_corners settings ops img rect) rect) rects"

section \<open>detect\<close>

text \<open>
  \<^verbatim>\<open>detect\<close>: the mask is a new, empty matrix; an exception of \<^verbatim>\<open>boundMask\<close>
  leaves \<^verbatim>\<open>detect\<close> before \<^verbatim>\<open>checkCorners\<close>. Publishing the debug image of the
  mask is left out, as above.
\<close>

definition detect ::
  "RoombaEstimatorSettings \<Rightarrow> external_ops \<Rightarrow> uchar list \<Rightarrow> Vec3b Mat \<Rightarrow> RotatedRect list
   \<Rightarrow> (ros_exception + unit) \<times> RotatedRect list"
where
  "detect settings ops uninit img bounding_rects =
     (let mask_img = thresholdFrame settings ops uninit img \<lparr>rows = 0, cols = 0, data = []\<rparr>
      in case boundMask ops mask_img bounding_rects of
           (Inl e, rects) \<Rightarrow> (Inl e, rects)
         | (Inr u, rects) \<Rightarrow> (Inr (), checkCorners settings ops img rects))"

section \<open>Concrete inputs\<close>

text \<open>
  Inputs on which the theorems below are evaluated: settings with a green slice and two
  red slices, a rectangular contour 100 wide and 50 high, and operations that return this
  contour for every mask, its principal axes \<open>(0, 1)\<close> and \<open>(1, 0)\<close>, the identity for
  the colour conversions and the opening, and the pixel under the centre of a window as
  its footprint.
\<close>

definition example_settings :: RoombaEstimatorSettings where
  "example_settings =
     \<lparr>pixels_per_meter = 100, roomba_plate_width = 1 / 4, roomba_height = 1 / 10,
      ght_levels = 360, ght_dp = 2, ght_votes_threshold = 30,
      camera_canny_threshold = 100, template_canny_threshold = 100,
      hsv_slice_h_green_min = 40, hsv_slice_h_green_max = 80,
      hsv_slice_h_red1_min = 0, hsv_slice_h_red1_max = 10,
      hsv_slice_h_red2_min = 170, hsv_slice_h_red2_max = 180,
      hsv_slice_s_min = 100, hsv_slice_s_max = 255,
      hsv_slice_v_min = 100, hsv_slice_v_max = 255,
      morphology_size = 5, morphology_iterations = 1,
      bottom_camera_aov = 60,
      debug_hsv_slice = False, debug_contours = False, debug_rects = False\<rparr>"

definition example_contour :: "Point list" where
  "example_contour = [(0, 0), (100, 0), (100, 50), (0, 50)]"

definition example_ops :: external_ops where
  "example_ops =
     \<lparr>cuda_cvtColor_RGB2HSV = (\<lambda>px. px),
      cvtColor_RGB2HSV = (\<lambda>px. px),
      morphology_open = (\<lambda>ksize iterations m. m),
      findContours = (\<lambda>m. [example_contour]),
      normalized_central_moments = (\<lambda>contour. (1 / 6, 0, 1 / 24)),
      eigenvectors = (\<lambda>cov. ((0, 1), (1, 0))),
      footprint = (\<lambda>window. [(\<lfloor>fst (center window)\<rfloor>, \<lfloor>snd (center window)\<rfloor>)])\<rparr>"

definition example_frame :: "Vec3b Mat" where
  "example_frame = \<lparr>rows = 1, cols = 2, data = [(60, 200, 200), (60, 50, 200)]\<rparr>"

definition empty_mat :: "uchar Mat" where
  "empty_mat = \<lparr>rows = 0, cols = 0, data = []\<rparr>"

section \<open>Invariant of the loop over the points\<close>

text \<open>
  The state of the loop over the points of a contour is well formed when each lower bound
  is at most its upper bound.
\<close>

fun bounds_ordered :: "(real \<times> real \<times> real \<times> real) option \<Rightarrow> bool" where
  "bounds_ordered None = True"
| "bounds_ordered (Some (max_x, min_x, max_y, min_y)) = (min_x \<le> max_x \<and> min_y \<le> max_y)"

section \<open>More concrete inputs\<close>

text \<open>
  A contour below the area band (9 by 9), one inside the band but ten times as long as
  wide, and the rectangle that \<open>fitRect\<close> gives for \<open>example_contour\<close> with the axes
  \<open>(0, 1)\<close> and \<open>(1, 0)\<close>.
\<close>

definition small_contour :: "Point list" where
  "small_contour = [(0, 0), (9, 0), (9, 9), (0, 9)]"

definition thin_contour :: "Point list" where
  "thin_contour = [(0, 0), (200, 0), (200, 20), (0, 20)]"

definition example_fit :: RotatedRect where
  "example_fit = \<lparr>center = (50, 25), rect_size = \<lparr>width = 50, height = 100\<rparr>, angle = - 90\<rparr>"

text \<open>
  A filled, axis-aligned region of \<open>w\<close> by \<open>h\<close> pixels with its corner at the origin:
  its pixels, and its outer contour as \<^verbatim>\<open>cv::findContours\<close> with
  \<^verbatim>\<open>CV_CHAIN_APPROX_SIMPLE\<close> gives it, the four corner pixels.
\<close>

definition region_pixels :: "nat \<Rightarrow> nat \<Rightarrow> Point list" where
  "region_pixels w h = concat (map (\<lambda>y. map (\<lambda>x. (int x, int y)) [0..<w]) [0..<h])"

definition region_contour :: "nat \<Rightarrow> nat \<Rightarrow> Point list" where
  "region_contour w h =
     [(0, 0), (0, int h - 1), (int w - 1, int h - 1), (int w - 1, 0)]"

text \<open>
  For \<open>checkCorners\<close>: a rectangle whose four corner windows fall on the pixels
  \<open>(0, 0)\<close>, \<open>(0, 2)\<close>, \<open>(2, 0)\<close> and \<open>(2, 2)\<close> of a 3x3 frame, a rectangle whose
  windows lie outside that frame, a frame with marker colour on one diagonal pair of these
  pixels, a frame with marker colour on the two pixels with \<open>x = 2\<close>, and settings whose
  green slice accepts every hue, saturation and value.
\<close>

definition example_rect :: RotatedRect where
  "example_rect = \<lparr>center = (1, 1), rect_size = \<lparr>width = 5 / 2, height = 5 / 2\<rparr>, angle = 0\<rparr>"

definition far_rect :: RotatedRect where
  "far_rect = \<lparr>center = (100, 100), rect_size = \<lparr>width = 10, height = 10\<rparr>, angle = 0\<rparr>"

definition diagonal_frame :: "Vec3b Mat" where
  "diagonal_frame =
     \<lparr>rows = 3, cols = 3,
      data = [(0, 0, 0), (0, 0, 0), (60, 200, 200),
              (0, 0, 0), (0, 0, 0), (0, 0, 0),
              (60, 200, 200), (0, 0, 0), (0, 0, 0)]\<rparr>"

definition side_frame :: "Vec3b Mat" where
  "side_frame =
     \<lparr>rows = 3, cols = 3,
      data = [(0, 0, 0), (0, 0, 0), (60, 200, 200),
              (0, 0, 0), (0, 0, 0), (0, 0, 0),
              (0, 0, 0), (0, 0, 0), (60, 200, 200)]\<rparr>"


text \<open>
  The condition as the specification words it, to be compared with \<open>flip_angle\<close>: the
  corners \<open>(-1, -1)\<close> and \<open>(1, 1)\<close> lie on one diagonal of the rectangle, \<open>(-1, 1)\<close> and
  \<open>(1, -1)\<close> on the other; one diagonal pair is non-marker-coloured and the other is
  marker-coloured.
\<close>

definition spec_diagonal_pattern :: "(int \<times> int \<Rightarrow> uchar) \<Rightarrow> bool" where
  "spec_diagonal_pattern good =
     ((good (-1, -1) = 0 \<and> good (1, 1) = 0 \<and> good (-1, 1) \<noteq> 0 \<and> good (1, -1) \<noteq> 0) \<or>
      (good (-1, 1) = 0 \<and> good (1, -1) = 0 \<and> good (-1, -1) \<noteq> 0 \<and> good (1, 1) \<noteq> 0))"

section \<open>Properties of thresholdFrame\<close>

lemma setTo_create:
  "setTo v (create r c uninit m) = \<lparr>rows = r, cols = c, data = replicate (r * c) v\<rparr>"
  by (cases m) (simp add: setTo_def create_def)

text \<open>
  C9: two calls of the colour-mask stage with the same settings and the same frame give
  the same mask, whatever the destination matrix held on entry and whatever the freshly
  allocated buffer contained: the stage reads no state left by an earlier call.
\<close>

theorem thresholdFrame_deterministic:
  "thresholdFrame settings ops uninit1 img dst1 = thresholdFrame settings ops uninit2 img dst2"
  by (simp add: thresholdFrame_def thresholdFrame_slices_def setTo_create)

lemma thresholdFrame_slices_data:
  assumes "length (data img) = rows img * cols img"
  shows "thresholdFrame_slices settings ops uninit img dst =
     \<lparr>rows = rows img, cols = cols img,
      data = map (\<lambda>px. if in_bounds (cuda_cvtColor_RGB2HSV ops px)
             (hsv_slice_h_green_min settings, hsv_slice_s_min settings, hsv_slice_v_min settings)
             (hsv_slice_h_green_max settings, hsv_slice_s_max settings, hsv_slice_v_max settings)
           \<or> in_bounds (cuda_cvtColor_RGB2HSV ops px)
             (hsv_slice_h_red1_min settings, hsv_slice_s_min settings, hsv_slice_v_min settings)
             (hsv_slice_h_red1_max settings, hsv_slice_s_max settings, hsv_slice_v_max settings)
           \<or> in_bounds (cuda_cvtColor_RGB2HSV ops px)
             (hsv_slice_h_red2_min settings, hsv_slice_s_min settings, hsv_slice_v_min settings)
             (hsv_slice_h_red2_max settings, hsv_slice_s_max settings, hsv_slice_v_max settings)
          then 255 else 0) (data img)\<rparr>"
  using assms
  apply (simp add: thresholdFrame_slices_def setTo_create Let_def bitwise_or_def
      cv_utils_inRange_def cvtColor_image_def)
  apply (rule nth_equalityI)
   apply simp_all
  done

lemma index_in_range:
  fixes r c :: nat
  assumes "r < m" "c < n"
  shows "r * n + c < m * n"
proof -
  have "r * n + c < r * n + n" using assms by simp
  also have "\<dots> = Suc r * n" by simp
  also have "\<dots> \<le> m * n" using assms by (intro mult_le_mono1) simp
  finally show ?thesis .
qed

text \<open>
  C7: before the opening, the mask has the shape of the frame, and its pixel at row
  \<open>r\<close>, column \<open>c\<close> is set exactly when the converted pixel \<open>(h, s, v)\<close> of the frame
  passes at least one of three tests: \<open>h\<close> within the green, the first red or the second
  red hue range, each together with \<open>s\<close> and \<open>v\<close> within the shared saturation and
  value bounds, all bounds included.
\<close>

theorem thresholdFrame_slices_membership:
  assumes "length (data img) = rows img * cols img" and "r < rows img" and "c < cols img"
  shows "rows (thresholdFrame_slices settings ops uninit img dst) = rows img \<and>
         cols (thresholdFrame_slices settings ops uninit img dst) = cols img \<and>
         (mat_at (thresholdFrame_slices settings ops uninit img dst) r c \<noteq> 0 \<longleftrightarrow>
          (case cuda_cvtColor_RGB2HSV ops (mat_at img r c) of (h, s, v) \<Rightarrow>
            (hsv_slice_h_green_min settings \<le> uint h \<and> uint h \<le> hsv_slice_h_green_max settings \<and>
             hsv_slice_s_min settings \<le> uint s \<and> uint s \<le> hsv_slice_s_max settings \<and>
             hsv_slice_v_min settings \<le> uint v \<and> uint v \<le> hsv_slice_v_max settings) \<or>
            (hsv_slice_h_red1_min settings \<le> uint h \<and> uint h \<le> hsv_slice_h_red1_max settings \<and>
             hsv_slice_s_min settings \<le> uint s \<and> uint s \<le> hsv_slice_s_max settings \<and>
             hsv_slice_v_min settings \<le> uint v \<and> uint v \<le> hsv_slice_v_max settings) \<or>
            (hsv_slice_h_red2_min settings \<le> uint h \<and> uint h \<le> hsv_slice_h_red2_max settings \<and>
             hsv_slice_s_min settings \<le> uint s \<and> uint s \<le> hsv_slice_s_max settings \<and>
             hsv_slice_v_min settings \<le> uint v \<and> uint v \<le> hsv_slice_v_max settings)))"
proof -
  have k: "r * cols img + c < length (data img)"
    using assms by (simp add: index_in_range)
  show ?thesis
    using k by (auto simp add: thresholdFrame_slices_data [OF assms(1)] mat_at_def in_bounds_def
        split: prod.splits)
qed

theorem thresholdFrame_slices_membership_witness:
  "length (data example_frame) = rows example_frame * cols example_frame \<and>
   0 < rows example_frame \<and> 1 < cols example_frame \<and>
   mat_at (thresholdFrame_slices example_settings example_ops [] example_frame empty_mat) 0 0 \<noteq> 0 \<and>
   mat_at (thresholdFrame_slices example_settings example_ops [] example_frame empty_mat) 0 1 = 0"
proof -
  have wf: "length (data example_frame) = rows example_frame * cols example_frame"
    by (simp add: example_frame_def)
  have r0: "(0::nat) < rows example_frame" and c0: "(0::nat) < cols example_frame"
    and c1: "(1::nat) < cols example_frame"
    by (simp_all add: example_frame_def)
  have a: "mat_at (thresholdFrame_slices example_settings example_ops [] example_frame empty_mat) 0 0 \<noteq> 0"
    using thresholdFrame_slices_membership [OF wf r0 c0, of example_settings example_ops "[]" empty_mat]
    by (simp add: example_frame_def example_settings_def example_ops_def mat_at_def)
  have b: "mat_at (thresholdFrame_slices example_settings example_ops [] example_frame empty_mat) 0 1 = 0"
    using thresholdFrame_slices_membership [OF wf r0 c1, of example_settings example_ops "[]" empty_mat]
    by (simp add: example_frame_def example_settings_def example_ops_def mat_at_def)
  show ?thesis using wf r0 c1 a b by simp
qed

section \<open>Properties of boundMask and detect\<close>


lemma extend_bounds_ordered:
  "bounds_ordered st \<Longrightarrow> bounds_ordered (extend_bounds e0 e1 st p)"
  by (cases st) (auto simp add: Let_def)

lemma foldl_extend_bounds_ordered:
  "bounds_ordered st \<Longrightarrow> bounds_ordered (foldl (extend_bounds e0 e1) st ps)"
  by (induction ps arbitrary: st) (simp_all add: extend_bounds_ordered)





lemma fitRect_empty: "fitRect e0 e1 [] = Inl (Exception ''Empty contour'')"
  by (simp add: fitRect_def)

lemma fitRect_size_nonneg:
  assumes "fitRect e0 e1 contour = Inr rect"
  shows "0 \<le> width (rect_size rect) \<and> 0 \<le> height (rect_size rect)"
proof -
  have "bounds_ordered (foldl (extend_bounds e0 e1) None contour)"
    by (rule foldl_extend_bounds_ordered) simp
  with assms show ?thesis
    by (auto simp add: fitRect_def split: option.splits)
qed

lemma atan2_bounds: "- pi < atan2 y x \<and> atan2 y x \<le> pi"
proof -
  have a: "- (pi / 2) < arctan (y / x)" "arctan (y / x) < pi / 2"
    by (rule arctan_lbound, rule arctan_ubound)
  have pos: "0 < pi" by simp
  consider "0 < x" | "x < 0" "0 \<le> y" | "x < 0" "y < 0" | "x = 0"
    by linarith
  then show ?thesis
  proof cases
    case 1
    then show ?thesis using a pos by (simp add: atan2_def) 
  next
    case 2
    then have "y / x \<le> 0" by (simp add: divide_nonneg_neg)
    then have "arctan (y / x) \<le> 0" by (simp add: arctan_le_zero_iff)
    then show ?thesis using 2 a pos by (simp add: atan2_def)
  next
    case 3
    then have "0 < y / x" by (simp add: divide_neg_neg)
    then have "0 < arctan (y / x)" by (simp add: zero_less_arctan_iff)
    then show ?thesis using 3 a pos by (simp add: atan2_def)
  next
    case 4
    then have "atan2 y x = pi / 2 \<or> atan2 y x = - (pi / 2) \<or> atan2 y x = 0"
      by (simp add: atan2_def)
    then show ?thesis using pos by argo
  qed
qed

lemma atan2_pos: "0 < y \<Longrightarrow> 0 < atan2 y x"
proof -
  assume y: "0 < y"
  have a: "- (pi / 2) < arctan (y / x)" by (rule arctan_lbound)
  have pos: "0 < pi" by simp
  consider "0 < x" | "x < 0" | "x = 0" by linarith
  then show ?thesis
  proof cases
    case 1
    then have "0 < y / x" using y by simp
    then show ?thesis using 1 by (simp add: atan2_def zero_less_arctan_iff)
  next
    case 2
    have "0 < arctan (y / x) + pi" using a pos by linarith
    then show ?thesis using 2 y by (simp add: atan2_def)
  next
    case 3
    then show ?thesis using y pos by (simp add: atan2_def)
  qed
qed

lemma fitRect_angle:
  assumes "fitRect e0 e1 contour = Inr rect"
  shows "angle rect = - atan2 (fst e1) (snd e1) * 180 / pi"
  using assms by (auto simp add: fitRect_def split: option.splits)

lemma fitRect_angle_bounds:
  assumes "fitRect e0 e1 contour = Inr rect"
  shows "- 180 \<le> angle rect \<and> angle rect < 180"
proof -
  have pos: "0 < pi" by simp
  have b: "- pi < atan2 (fst e1) (snd e1)" "atan2 (fst e1) (snd e1) \<le> pi"
    using atan2_bounds by blast+
  have up: "atan2 (fst e1) (snd e1) * 180 / pi \<le> 180"
    using b pos by (simp add: pos_divide_le_eq)
  have lo: "- 180 < atan2 (fst e1) (snd e1) * 180 / pi"
    using b pos by (simp add: pos_less_divide_eq)
  show ?thesis using up lo fitRect_angle [OF assms] by simp
qed

lemma fitRect_angle_negative:
  assumes "fitRect e0 e1 contour = Inr rect" and "0 < fst e1"
  shows "angle rect < 0"
proof -
  have "0 < atan2 (fst e1) (snd e1)" using assms(2) by (rule atan2_pos)
  then have "0 < atan2 (fst e1) (snd e1) * 180 / pi" by simp
  then show ?thesis using fitRect_angle [OF assms(1)] by simp
qed

lemma boundMask_loop_skip:
  "moments_m00 c < 2000 \<or> 15000 < moments_m00 c \<Longrightarrow>
   boundMask_loop ops (c # cs) acc = boundMask_loop ops cs acc"
  by auto

lemma boundMask_loop_fit:
  assumes "2000 \<le> moments_m00 c" "moments_m00 c \<le> 15000"
    and "eigenvectors ops (normalized_central_moments ops c) = (e0, e1)"
    and "fitRect e0 e1 c = Inr rect"
  shows "boundMask_loop ops (c # cs) acc =
     (if height (rect_size rect) > width (rect_size rect) * 4
         \<or> width (rect_size rect) > height (rect_size rect) * 4
      then boundMask_loop ops cs acc else boundMask_loop ops cs (acc @ [rect]))"
  using assms by simp


lemma boundMask_loop_filter:
  "boundMask_loop ops contours acc =
   boundMask_loop ops (filter (\<lambda>c. 2000 \<le> moments_m00 c \<and> moments_m00 c \<le> 15000) contours) acc"
proof (induction contours arbitrary: acc)
  case Nil
  show ?case by simp
next
  case (Cons c cs)
  let ?keep = "\<lambda>c. 2000 \<le> moments_m00 c \<and> moments_m00 c \<le> 15000"
  show ?case
  proof (cases "?keep c")
    case False
    then have skip: "moments_m00 c < 2000 \<or> moments_m00 c > 15000" by auto
    have "boundMask_loop ops (c # cs) acc = boundMask_loop ops cs acc"
      using skip by simp
    also have "\<dots> = boundMask_loop ops (filter ?keep cs) acc"
      by (rule Cons.IH)
    also have "filter ?keep cs = filter ?keep (c # cs)"
      using False by simp
    finally show ?thesis .
  next
    case True
    then have keep: "\<not> (moments_m00 c < 2000 \<or> moments_m00 c > 15000)" by auto
    have f: "filter ?keep (c # cs) = c # filter ?keep cs"
      using True by simp
    show ?thesis
      unfolding f using keep Cons.IH
      by (simp split: prod.splits sum.splits)
  qed
qed

lemma boundMask_loop_prefix:
  "\<exists>ys. snd (boundMask_loop ops contours acc) = acc @ ys"
proof (induction contours arbitrary: acc)
  case Nil
  show ?case by simp
next
  case (Cons c cs)
  obtain ys1 where a: "snd (boundMask_loop ops cs acc) = acc @ ys1" using Cons.IH by blast
  have b: "\<And>rect. \<exists>ys. snd (boundMask_loop ops cs (acc @ [rect])) = acc @ ys"
  proof -
    fix rect
    obtain ys2 where "snd (boundMask_loop ops cs (acc @ [rect])) = (acc @ [rect]) @ ys2"
      using Cons.IH by blast
    then show "\<exists>ys. snd (boundMask_loop ops cs (acc @ [rect])) = acc @ ys" by simp
  qed
  show ?case using a b by (simp split: prod.splits sum.splits)
qed

lemma boundMask_loop_invariant:
  assumes "\<And>e0 e1 c rect. fitRect e0 e1 c = Inr rect \<Longrightarrow> P rect"
    and "list_all P acc"
  shows "list_all P (snd (boundMask_loop ops contours acc))"
  using assms(2)
proof (induction contours arbitrary: acc)
  case Nil
  then show ?case by simp
next
  case (Cons c cs)
  show ?case using Cons.prems Cons.IH assms(1)
    by (auto split: prod.splits sum.splits)
qed

lemma example_contour_m00: "moments_m00 example_contour = 5000"
  by (simp add: moments_m00_def example_contour_def)

lemma small_contour_m00: "moments_m00 small_contour = 81"
  by (simp add: moments_m00_def small_contour_def)

lemma thin_contour_m00: "moments_m00 thin_contour = 4000"
  by (simp add: moments_m00_def thin_contour_def)

lemma atan2_1_0: "atan2 1 0 = pi / 2"
  by (simp add: atan2_def)

lemma example_fitRect: "fitRect (0, 1) (1, 0) example_contour = Inr example_fit"
  by (simp add: fitRect_def example_contour_def example_fit_def dot_def Let_def
      add_vec_def scale_vec_def atan2_1_0)

lemma thin_fitRect:
  "fitRect (0, 1) (1, 0) thin_contour =
     Inr \<lparr>center = (100, 10), rect_size = \<lparr>width = 20, height = 200\<rparr>, angle = - 90\<rparr>"
  by (simp add: fitRect_def thin_contour_def dot_def Let_def
      add_vec_def scale_vec_def atan2_1_0)

lemma example_ops_eigenvectors:
  "eigenvectors example_ops (normalized_central_moments example_ops c) = ((0, 1), (1, 0))"
  by (simp add: example_ops_def)

lemma example_boundMask_loop:
  "boundMask_loop example_ops [small_contour, example_contour, thin_contour] [] = (Inr (), [example_fit])"
  by (simp add: small_contour_m00 example_contour_m00 thin_contour_m00
      example_ops_eigenvectors example_fitRect thin_fitRect example_fit_def)


text \<open>
  C4, as the code has it: the area test is on the zeroth moment of the region's contour,
  the area of the contour polygon, against the constants 2000 and 15000, which no setting
  changes. A region whose contour moment lies below 2000 or above 15000 is dropped and
  has no effect on the result, so the stage gives the same result as on the contours
  inside the band alone; a region with contour moment from 2000 to 15000, both included,
  passes the area test: when its rectangle is fitted and passes the test of the sides,
  the rectangle is appended and is part of the result.
\<close>

theorem boundMask_area_band:
  "boundMask ops mask_img boundRect =
     boundMask_loop ops
       (filter (\<lambda>c. 2000 \<le> moments_m00 c \<and> moments_m00 c \<le> 15000) (findContours ops mask_img)) [] \<and>
   (moments_m00 c < 2000 \<or> 15000 < moments_m00 c \<longrightarrow>
      boundMask_loop ops (c # cs) acc = boundMask_loop ops cs acc) \<and>
   (2000 \<le> moments_m00 c \<and> moments_m00 c \<le> 15000 \<and>
    eigenvectors ops (normalized_central_moments ops c) = (e0, e1) \<and>
    fitRect e0 e1 c = Inr rect \<and>
    \<not> (height (rect_size rect) > width (rect_size rect) * 4
       \<or> width (rect_size rect) > height (rect_size rect) * 4) \<longrightarrow>
      boundMask_loop ops (c # cs) acc = boundMask_loop ops cs (acc @ [rect]) \<and>
      rect \<in> set (snd (boundMask_loop ops (c # cs) acc)))"
proof (intro conjI impI)
  show "boundMask ops mask_img boundRect =
     boundMask_loop ops
       (filter (\<lambda>c. 2000 \<le> moments_m00 c \<and> moments_m00 c \<le> 15000) (findContours ops mask_img)) []"
    unfolding boundMask_def using boundMask_loop_filter [of ops "findContours ops mask_img" "[]"]
    by simp
next
  assume "moments_m00 c < 2000 \<or> 15000 < moments_m00 c"
  then show "boundMask_loop ops (c # cs) acc = boundMask_loop ops cs acc"
    by (rule boundMask_loop_skip)
next
  assume a: "2000 \<le> moments_m00 c \<and> moments_m00 c \<le> 15000 \<and>
    eigenvectors ops (normalized_central_moments ops c) = (e0, e1) \<and>
    fitRect e0 e1 c = Inr rect \<and>
    \<not> (height (rect_size rect) > width (rect_size rect) * 4
       \<or> width (rect_size rect) > height (rect_size rect) * 4)"
  then show step: "boundMask_loop ops (c # cs) acc = boundMask_loop ops cs (acc @ [rect])"
    by simp
  obtain ys where "snd (boundMask_loop ops cs (acc @ [rect])) = (acc @ [rect]) @ ys"
    using boundMask_loop_prefix by blast
  then show "rect \<in> set (snd (boundMask_loop ops (c # cs) acc))"
    unfolding step by simp
qed

theorem boundMask_area_band_witness:
  "moments_m00 small_contour < 2000 \<and>
   boundMask_loop example_ops [small_contour, example_contour] [] =
     boundMask_loop example_ops [example_contour] [] \<and>
   2000 \<le> moments_m00 example_contour \<and> moments_m00 example_contour \<le> 15000 \<and>
   boundMask_loop example_ops [example_contour] [] = (Inr (), [example_fit]) \<and>
   example_fit \<in> set (snd (boundMask_loop example_ops [example_contour] []))"
proof -
  note a = boundMask_area_band [of example_ops empty_mat "[]" small_contour "[example_contour]" "[]"
      "(0, 1)" "(1, 0)" example_fit]
  note b = boundMask_area_band [of example_ops empty_mat "[]" example_contour "[]" "[]"
      "(0, 1)" "(1, 0)" example_fit]
  have 1: "boundMask_loop example_ops [small_contour, example_contour] [] =
     boundMask_loop example_ops [example_contour] []"
    using a by (simp add: small_contour_m00)
  have 2: "boundMask_loop example_ops [example_contour] [] = boundMask_loop example_ops [] ([] @ [example_fit]) \<and>
     example_fit \<in> set (snd (boundMask_loop example_ops [example_contour] []))"
    using b by (simp add: example_contour_m00 example_ops_eigenvectors example_fitRect example_fit_def)
  show ?thesis using 1 2 by (simp add: small_contour_m00 example_contour_m00)
qed

lemma length_region_pixels: "length (region_pixels w h) = w * h"
  by (simp add: region_pixels_def length_concat comp_def sum_list_triv)

lemma region_contour_45_m00: "moments_m00 (region_contour 45 45) = 1936"
  by (simp add: moments_m00_def region_contour_def)

lemma region_contour_123_m00: "moments_m00 (region_contour 123 123) = 14884"
  by (simp add: moments_m00_def region_contour_def)

lemma region_contour_123_fitRect:
  "fitRect (0, 1) (1, 0) (region_contour 123 123) =
     Inr \<lparr>center = (61, 61), rect_size = \<lparr>width = 122, height = 122\<rparr>, angle = - 90\<rparr>"
  by (simp add: fitRect_def region_contour_def dot_def Let_def add_vec_def scale_vec_def atan2_1_0)

text \<open>
  The band is not one on the pixel area: a region of 45 by 45 pixels has 2025 pixels,
  inside 2000 to 15000, but contour moment 1936, and is dropped; a region of 123 by 123
  pixels has 15129 pixels, above 15000, but contour moment 14884, and its rectangle is
  given.
\<close>

theorem boundMask_pixel_area_counterexample:
  "length (region_pixels 45 45) = 2025 \<and>
   moments_m00 (region_contour 45 45) = 1936 \<and>
   boundMask_loop example_ops [region_contour 45 45] [] = (Inr (), []) \<and>
   length (region_pixels 123 123) = 15129 \<and>
   moments_m00 (region_contour 123 123) = 14884 \<and>
   boundMask_loop example_ops [region_contour 123 123] [] =
     (Inr (), [\<lparr>center = (61, 61), rect_size = \<lparr>width = 122, height = 122\<rparr>, angle = - 90\<rparr>])"
  by (simp add: length_region_pixels region_contour_45_m00 region_contour_123_m00
      example_ops_eigenvectors region_contour_123_fitRect)

text \<open>
  C5: a fitted rectangle of a region inside the area band is dropped exactly when its
  longer side is more than 4 times its shorter side, and is appended otherwise; when the
  shorter side is positive this is the test that the ratio of the longer to the shorter
  side exceeds 4.
\<close>

theorem boundMask_aspect_ratio:
  assumes "2000 \<le> moments_m00 c" and "moments_m00 c \<le> 15000"
    and "eigenvectors ops (normalized_central_moments ops c) = (e0, e1)"
    and "fitRect e0 e1 c = Inr rect"
  shows "boundMask_loop ops (c # cs) acc =
           (if 4 * min (width (rect_size rect)) (height (rect_size rect))
                 < max (width (rect_size rect)) (height (rect_size rect))
            then boundMask_loop ops cs acc
            else boundMask_loop ops cs (acc @ [rect])) \<and>
         (0 < min (width (rect_size rect)) (height (rect_size rect)) \<longrightarrow>
            (4 * min (width (rect_size rect)) (height (rect_size rect))
                 < max (width (rect_size rect)) (height (rect_size rect))) =
            (4 < max (width (rect_size rect)) (height (rect_size rect))
                 / min (width (rect_size rect)) (height (rect_size rect))))"
proof -
  have nn: "0 \<le> width (rect_size rect)" "0 \<le> height (rect_size rect)"
    using fitRect_size_nonneg [OF assms(4)] by simp_all
  have eq: "(height (rect_size rect) > width (rect_size rect) * 4
         \<or> width (rect_size rect) > height (rect_size rect) * 4) =
        (4 * min (width (rect_size rect)) (height (rect_size rect))
                 < max (width (rect_size rect)) (height (rect_size rect)))"
    using nn by (auto simp add: min_def max_def)
  have r: "0 < min (width (rect_size rect)) (height (rect_size rect)) \<Longrightarrow>
      (4 * min (width (rect_size rect)) (height (rect_size rect))
                 < max (width (rect_size rect)) (height (rect_size rect))) =
            (4 < max (width (rect_size rect)) (height (rect_size rect))
                 / min (width (rect_size rect)) (height (rect_size rect)))"
    by (simp add: pos_less_divide_eq)
  show ?thesis
    using boundMask_loop_fit [OF assms, of cs acc] eq r by simp
qed

theorem boundMask_aspect_ratio_witness:
  "boundMask_loop example_ops [example_contour] [] = (Inr (), [example_fit]) \<and>
   max (width (rect_size example_fit)) (height (rect_size example_fit))
     / min (width (rect_size example_fit)) (height (rect_size example_fit)) = 2 \<and>
   boundMask_loop example_ops [thin_contour] [] = (Inr (), [])"
proof -
  have m1: "2000 \<le> moments_m00 example_contour" "moments_m00 example_contour \<le> 15000"
    by (simp_all add: example_contour_m00)
  have m2: "2000 \<le> moments_m00 thin_contour" "moments_m00 thin_contour \<le> 15000"
    by (simp_all add: thin_contour_m00)
  have 1: "boundMask_loop example_ops [example_contour] [] = (Inr (), [example_fit])"
    using boundMask_aspect_ratio [OF m1 example_ops_eigenvectors example_fitRect, of "[]" "[]"]
    by (simp add: example_fit_def)
  have 2: "boundMask_loop example_ops [thin_contour] [] = (Inr (), [])"
    using boundMask_aspect_ratio [OF m2 example_ops_eigenvectors thin_fitRect, of "[]" "[]"]
    by simp
  show ?thesis using 1 2 by (simp add: example_fit_def)
qed

text \<open>
  C10: the result of the blob-extraction stage, and of \<^verbatim>\<open>detect\<close>, is the same for
  any two initial contents of the caller's vector: the vector is cleared first, so
  elements it held before neither appear in the result nor change it.
\<close>

theorem detect_overwrites_output:
  "boundMask ops mask_img rects1 = boundMask ops mask_img rects2 \<and>
   detect settings ops uninit img rects1 = detect settings ops uninit img rects2"
  by (simp add: detect_def boundMask_def)

section \<open>Properties of checkCorners\<close>

lemma fmod_360_range:
  assumes "0 \<le> x"
  shows "0 \<le> fmod x 360 \<and> fmod x 360 < 360"
proof -
  have nn: "\<not> x / 360 < 0" using assms by simp
  have lo: "real_of_int \<lfloor>x / 360\<rfloor> \<le> x / 360" by (rule of_int_floor_le)
  have hi: "x / 360 < real_of_int \<lfloor>x / 360\<rfloor> + 1" by linarith
  show ?thesis using nn lo hi by (simp add: fmod_def field_simps)
qed

lemma fmod_360_congruent: "\<exists>k::int. fmod x 360 = x - 360 * real_of_int k"
  by (auto simp add: fmod_def)

lemma fmod_half_turn_changes: "fmod (a + 180) 360 \<noteq> a"
proof
  assume eq: "fmod (a + 180) 360 = a"
  obtain k :: int where k: "fmod (a + 180) 360 = a + 180 - 360 * real_of_int k"
    using fmod_360_congruent by blast
  from eq k have "real_of_int (2 * k) = real_of_int 1" by simp
  then have "2 * k = 1" by (simp only: of_int_eq_iff)
  then show False by presburger
qed

lemma flip_angle_frame:
  "center (flip_angle corners rect) = center rect \<and>
   rect_size (flip_angle corners rect) = rect_size rect \<and>
   (angle (flip_angle corners rect) = angle rect \<or>
    angle (flip_angle corners rect) = fmod (angle rect + 180) 360)"
  by (simp add: flip_angle_def)

lemma flip_angle_bounds:
  assumes "- 180 \<le> angle rect" "angle rect \<le> 180"
  shows "- 180 \<le> angle (flip_angle corners rect) \<and> angle (flip_angle corners rect) < 360"
proof -
  have "0 \<le> angle rect + 180" using assms by simp
  then have "0 \<le> fmod (angle rect + 180) 360 \<and> fmod (angle rect + 180) 360 < 360"
    by (rule fmod_360_range)
  then show ?thesis using assms by (simp add: flip_angle_def)
qed

lemma rect_corners_values:
  "rect_corners settings ops img rect =
     \<lparr>rows = 2, cols = 2,
      data = [corner_good settings ops img rect (-1, -1), corner_good settings ops img rect (-1, 1),
              corner_good settings ops img rect (1, -1), corner_good settings ops img rect (1, 1)]\<rparr>"
  by (simp add: rect_corners_def corner_step_def zeros_def mat_set_def numeral_2_eq_2)


lemma example_rect_window:
  "center (corner_window example_rect (i, j)) = (1 + real_of_int i, 1 + real_of_int j)"
  by (simp add: corner_window_def example_rect_def offset_x_of_def offset_y_of_def rads_of_def
      scale_def scale_vec_def add_vec_def)


lemma example_ops_footprint:
  "footprint example_ops window = [(\<lfloor>fst (center window)\<rfloor>, \<lfloor>snd (center window)\<rfloor>)]"
  by (simp add: example_ops_def)

lemma uchar_cast [simp]: "saturate_cast_uchar 0 = 0" "saturate_cast_uchar 60 = 60" "saturate_cast_uchar 200 = 200"
  by (simp_all add: saturate_cast_uchar_def cvRound_def)

lemma diagonal_frame_corners:
  "corner_good example_settings example_ops diagonal_frame example_rect (-1, -1) = 0"
  "corner_good example_settings example_ops diagonal_frame example_rect (-1, 1) = 255"
  "corner_good example_settings example_ops diagonal_frame example_rect (1, -1) = 255"
  "corner_good example_settings example_ops diagonal_frame example_rect (1, 1) = 0"
  by (simp_all add: corner_good_def sumPatch_def example_ops_footprint example_rect_window
      clip_footprint_def diagonal_frame_def mat_at_def patch_good_def Let_def Vec3b_of_Vec3d_def
      cvtColor_image_def cv_inRange_def bitwise_or_def mat_set_def zeros_def in_bounds_def
      example_settings_def example_ops_def)

lemma side_frame_corners:
  "corner_good example_settings example_ops side_frame example_rect (-1, -1) = 0"
  "corner_good example_settings example_ops side_frame example_rect (-1, 1) = 0"
  "corner_good example_settings example_ops side_frame example_rect (1, -1) = 255"
  "corner_good example_settings example_ops side_frame example_rect (1, 1) = 255"
  by (simp_all add: corner_good_def sumPatch_def example_ops_footprint example_rect_window
      clip_footprint_def side_frame_def mat_at_def patch_good_def Let_def Vec3b_of_Vec3d_def
      cvtColor_image_def cv_inRange_def bitwise_or_def mat_set_def zeros_def in_bounds_def
      example_settings_def example_ops_def)

lemma example_rect_angle: "angle example_rect = 0"
  by (simp add: example_rect_def)

lemma fmod_180: "fmod 180 360 = 180"
  by (simp add: fmod_def)

text \<open>
  C1, as the code has it: the angle is changed, to \<open>fmod (angle + 180) 360\<close>, exactly
  when the two corners on the side \<open>i = -1\<close> of the rectangle (at \<open>- offset_x\<close>) are both
  non-marker-coloured and the two corners on the side \<open>i = 1\<close> (at \<open>+ offset_x\<close>) are both
  marker-coloured; for every other combination of the four corners the rectangle is
  returned as it was.
\<close>

theorem checkCorners_flip_rule:
  "flip_angle (rect_corners settings ops img rect) rect =
     (if corner_good settings ops img rect (-1, -1) = 0 \<and>
         corner_good settings ops img rect (-1, 1) = 0 \<and>
         corner_good settings ops img rect (1, -1) \<noteq> 0 \<and>
         corner_good settings ops img rect (1, 1) \<noteq> 0
      then rect\<lparr>angle := fmod (angle rect + 180) 360\<rparr>
      else rect) \<and>
   (angle (flip_angle (rect_corners settings ops img rect) rect) \<noteq> angle rect) =
     (corner_good settings ops img rect (-1, -1) = 0 \<and>
      corner_good settings ops img rect (-1, 1) = 0 \<and>
      corner_good settings ops img rect (1, -1) \<noteq> 0 \<and>
      corner_good settings ops img rect (1, 1) \<noteq> 0)"
  by (simp add: rect_corners_values flip_angle_def mat_at_def fmod_half_turn_changes)

theorem checkCorners_flip_rule_witness:
  "flip_angle (rect_corners example_settings example_ops side_frame example_rect) example_rect =
     example_rect\<lparr>angle := 180\<rparr> \<and>
   flip_angle (rect_corners example_settings example_ops diagonal_frame example_rect) example_rect =
     example_rect"
  using checkCorners_flip_rule [of example_settings example_ops side_frame example_rect]
    checkCorners_flip_rule [of example_settings example_ops diagonal_frame example_rect]
  by (simp add: side_frame_corners diagonal_frame_corners fmod_180 example_rect_angle)

text \<open>
  The diagonal reading fails in both directions: with marker colour on one diagonal pair
  only, the rectangle is returned unchanged; with marker colour on the two corners of the
  side \<open>i = 1\<close> only, which is no diagonal pattern, the angle 0 becomes 180.
\<close>

theorem checkCorners_diagonal_counterexample:
  "spec_diagonal_pattern (corner_good example_settings example_ops diagonal_frame example_rect) \<and>
   checkCorners example_settings example_ops diagonal_frame [example_rect] = [example_rect] \<and>
   \<not> spec_diagonal_pattern (corner_good example_settings example_ops side_frame example_rect) \<and>
   angle example_rect = 0 \<and>
   map angle (checkCorners example_settings example_ops side_frame [example_rect]) = [180]"
  by (simp add: spec_diagonal_pattern_def checkCorners_def rect_corners_values flip_angle_def
      mat_at_def side_frame_corners diagonal_frame_corners fmod_180 example_rect_angle)

text \<open>
  C6: \<open>checkCorners\<close> returns as many rectangles as it was given, in the same order;
  each keeps its centre and its size, and its angle is either the one it had or
  \<open>fmod (angle + 180) 360\<close>, which differs from \<open>angle + 180\<close> by a multiple of 360.
\<close>

theorem checkCorners_frame:
  "length (checkCorners settings ops img rects) = length rects \<and>
   (\<forall>i < length rects.
      center (checkCorners settings ops img rects ! i) = center (rects ! i) \<and>
      rect_size (checkCorners settings ops img rects ! i) = rect_size (rects ! i) \<and>
      (angle (checkCorners settings ops img rects ! i) = angle (rects ! i) \<or>
       angle (checkCorners settings ops img rects ! i) = fmod (angle (rects ! i) + 180) 360 \<and>
       (\<exists>k::int. angle (checkCorners settings ops img rects ! i)
                   = angle (rects ! i) + 180 - 360 * real_of_int k)))"
proof (intro conjI allI impI)
  show "length (checkCorners settings ops img rects) = length rects"
    by (simp add: checkCorners_def)
next
  fix i assume i: "i < length rects"
  have out: "checkCorners settings ops img rects ! i =
      flip_angle (rect_corners settings ops img (rects ! i)) (rects ! i)"
    using i by (simp add: checkCorners_def)
  show "center (checkCorners settings ops img rects ! i) = center (rects ! i)"
    unfolding out using flip_angle_frame by blast
  show "rect_size (checkCorners settings ops img rects ! i) = rect_size (rects ! i)"
    unfolding out using flip_angle_frame by blast
  have "angle (flip_angle (rect_corners settings ops img (rects ! i)) (rects ! i)) = angle (rects ! i) \<or>
        angle (flip_angle (rect_corners settings ops img (rects ! i)) (rects ! i))
          = fmod (angle (rects ! i) + 180) 360"
    using flip_angle_frame by blast
  then show "angle (checkCorners settings ops img rects ! i) = angle (rects ! i) \<or>
       angle (checkCorners settings ops img rects ! i) = fmod (angle (rects ! i) + 180) 360 \<and>
       (\<exists>k::int. angle (checkCorners settings ops img rects ! i)
                   = angle (rects ! i) + 180 - 360 * real_of_int k)"
    unfolding out using fmod_360_congruent [of "angle (rects ! i) + 180"] by auto
qed

theorem checkCorners_frame_witness:
  "length (checkCorners example_settings example_ops side_frame [example_rect, far_rect]) = 2 \<and>
   center (checkCorners example_settings example_ops side_frame [example_rect, far_rect] ! 0) = (1, 1) \<and>
   rect_size (checkCorners example_settings example_ops side_frame [example_rect, far_rect] ! 1)
     = \<lparr>width = 10, height = 10\<rparr>"
  using checkCorners_frame [of example_settings example_ops side_frame "[example_rect, far_rect]"]
  by (simp add: example_rect_def far_rect_def All_less_Suc2 numeral_2_eq_2)




section \<open>Properties of detect\<close>

lemma boundMask_angle_range:
  "\<forall>rect \<in> set (snd (boundMask ops mask_img boundRect)). - 180 \<le> angle rect \<and> angle rect \<le> 180"
proof -
  have "list_all (\<lambda>rect. - 180 \<le> angle rect \<and> angle rect \<le> 180)
          (snd (boundMask_loop ops (findContours ops mask_img) []))"
  proof (rule boundMask_loop_invariant)
    fix e0 e1 c rect
    assume "fitRect e0 e1 c = Inr rect"
    then show "- 180 \<le> angle rect \<and> angle rect \<le> 180"
      using fitRect_angle_bounds [of e0 e1 c rect] by simp
  next
    show "list_all (\<lambda>rect. - 180 \<le> angle rect \<and> angle rect \<le> 180) []" by simp
  qed
  then show ?thesis by (simp add: boundMask_def list_all_iff)
qed

text \<open>
  C3, as the code has it: every rectangle that \<open>boundMask\<close> gives has an angle from
  -180 to 180, and every rectangle that \<open>detect\<close> gives has an angle from -180 up to,
  but not including, 360.
\<close>

theorem detect_angle_range:
  "(\<forall>rect \<in> set (snd (boundMask ops mask_img boundRect)).
      - 180 \<le> angle rect \<and> angle rect \<le> 180) \<and>
   (\<forall>rect \<in> set (snd (detect settings ops uninit img bounding_rects)).
      - 180 \<le> angle rect \<and> angle rect < 360)"
proof (intro conjI)
  show "\<forall>rect \<in> set (snd (boundMask ops mask_img boundRect)).
      - 180 \<le> angle rect \<and> angle rect \<le> 180"
    by (rule boundMask_angle_range)
next
  let ?m = "thresholdFrame settings ops uninit img \<lparr>rows = 0, cols = 0, data = []\<rparr>"
  obtain r rects where bm: "boundMask ops ?m bounding_rects = (r, rects)"
    by (cases "boundMask ops ?m bounding_rects") auto
  have b: "\<forall>rect \<in> set rects. - 180 \<le> angle rect \<and> angle rect \<le> 180"
    using boundMask_angle_range [of ops ?m bounding_rects] bm by simp
  show "\<forall>rect \<in> set (snd (detect settings ops uninit img bounding_rects)).
      - 180 \<le> angle rect \<and> angle rect < 360"
  proof (cases r)
    case (Inl e)
    then have "snd (detect settings ops uninit img bounding_rects) = rects"
      using bm by (simp add: detect_def)
    then show ?thesis using b by fastforce
  next
    case (Inr u)
    then have "snd (detect settings ops uninit img bounding_rects) = checkCorners settings ops img rects"
      using bm by (simp add: detect_def)
    then show ?thesis using b flip_angle_bounds by (auto simp add: checkCorners_def)
  qed
qed

lemma example_fit_fields:
  "center example_fit = (50, 25)" "width (rect_size example_fit) = 50"
  "height (rect_size example_fit) = 100" "angle example_fit = - 90"
  by (simp_all add: example_fit_def)

lemma example_fit_window:
  "center (corner_window example_fit (i, j)) = (50 + 40 * real_of_int j, 25 - 20 * real_of_int i)"
proof -
  have r: "rads_of example_fit = - (pi / 2)"
    by (simp add: rads_of_def example_fit_fields)
  show ?thesis
    by (simp add: corner_window_def offset_x_of_def offset_y_of_def r scale_def scale_vec_def
        add_vec_def example_fit_fields)
qed

lemma example_fit_corners:
  "corner_good example_settings example_ops example_frame example_fit (-1, -1) = 0"
  "corner_good example_settings example_ops example_frame example_fit (-1, 1) = 0"
  "corner_good example_settings example_ops example_frame example_fit (1, -1) = 0"
  "corner_good example_settings example_ops example_frame example_fit (1, 1) = 0"
  by (simp_all add: corner_good_def sumPatch_def example_ops_footprint example_fit_window
      clip_footprint_def example_frame_def mat_at_def patch_good_def Let_def Vec3b_of_Vec3d_def
      cvtColor_image_def cv_inRange_def bitwise_or_def mat_set_def zeros_def in_bounds_def
      example_settings_def example_ops_def)

lemma example_boundMask:
  "boundMask example_ops m r = (Inr (), [example_fit])"
  by (simp add: boundMask_def example_ops_def example_contour_m00 example_fitRect
      example_fit_fields)

lemma example_detect:
  "detect example_settings example_ops [] example_frame [] = (Inr (), [example_fit])"
  by (simp add: detect_def example_boundMask checkCorners_def rect_corners_values flip_angle_def
      mat_at_def example_fit_corners)

theorem detect_angle_range_witness:
  "example_fit \<in> set (snd (detect example_settings example_ops [] example_frame [])) \<and>
   - 180 \<le> angle example_fit \<and> angle example_fit < 360"
proof -
  have m: "example_fit \<in> set (snd (detect example_settings example_ops [] example_frame []))"
    by (simp add: example_detect)
  show ?thesis
    using m detect_angle_range [of example_ops empty_mat "[]" example_settings "[]" example_frame "[]"]
    by blast
qed

text \<open>
  An angle below 0: the contour 100 wide and 50 high, with second principal axis
  \<open>(1, 0)\<close>, gives a rectangle at -90 degrees, which \<open>checkCorners\<close> leaves as it is.
\<close>

theorem detect_negative_angle:
  "snd (boundMask example_ops empty_mat []) = [example_fit] \<and>
   snd (detect example_settings example_ops [] example_frame []) = [example_fit] \<and>
   angle example_fit = - 90 \<and> \<not> 0 \<le> angle example_fit"
  by (simp add: example_boundMask example_detect example_fit_fields)

end
